theory Spec2Isabelle
  imports Complex_Main "HOL-Library.Word" "HOL-Library.Sublist"
begin

section \<open>Characters and strings of the exporter\<close>

text \<open>
  Python strings are sequences of code points. The model covers the code points
  0..255 (Latin-1), one \<^typ>\<open>char\<close> each, with Python's own classification of them:
  \<open>str.isalnum\<close>, \<open>str.isspace\<close> and \<open>str.lower\<close> as CPython 3 computes them on
  that range.
\<close>

definition isalnum :: "char \<Rightarrow> bool" where
  "isalnum c = (let n = (of_char c :: nat) in
     (48 \<le> n \<and> n \<le> 57) \<or> (65 \<le> n \<and> n \<le> 90) \<or> (97 \<le> n \<and> n \<le> 122) \<or>
     n = 170 \<or> n = 178 \<or> n = 179 \<or> n = 181 \<or> n = 185 \<or> n = 186 \<or>
     (188 \<le> n \<and> n \<le> 190) \<or> (192 \<le> n \<and> n \<le> 214) \<or>
     (216 \<le> n \<and> n \<le> 246) \<or> 248 \<le> n)"

definition isspace :: "char \<Rightarrow> bool" where
  "isspace c = (let n = (of_char c :: nat) in
     (9 \<le> n \<and> n \<le> 13) \<or> (28 \<le> n \<and> n \<le> 32) \<or> n = 133 \<or> n = 160)"

definition lower_char :: "char \<Rightarrow> char" where
  "lower_char c = (let n = (of_char c :: nat) in
     if (65 \<le> n \<and> n \<le> 90) \<or> (192 \<le> n \<and> n \<le> 214) \<or> (216 \<le> n \<and> n \<le> 222)
     then char_of (n + 32) else c)"

definition lower :: "string \<Rightarrow> string" where
  "lower s = map lower_char s"

definition strip :: "string \<Rightarrow> string" where
  "strip s = rev (dropWhile isspace (rev (dropWhile isspace s)))"

section \<open>Text normalizer\<close>

text \<open>
  \<^verbatim>\<open>def slugify(text):
    return "".join(c if c.isalnum() or c in "-_" else "_" for c in text.strip().lower())\<close>
\<close>

definition slug_char :: "char \<Rightarrow> char" where
  "slug_char c = (if isalnum c \<or> c \<in> set ''-_'' then c else CHR ''_'')"

definition slugify :: "string \<Rightarrow> string" where
  "slugify text = map slug_char (lower (strip text))"

section \<open>Numbers in text\<close>

text \<open>Python's \<open>str(n)\<close> for a non-negative integer, and the format specs \<open>{n:02}\<close>, \<open>{n:03}\<close>
  (zero-padded to a minimal width).\<close>

definition digit_char :: "nat \<Rightarrow> char" where
  "digit_char d = char_of (48 + d)"

fun show_nat :: "nat \<Rightarrow> string" where
  "show_nat n = (if n < 10 then [digit_char n] else show_nat (n div 10) @ [digit_char (n mod 10)])"

declare show_nat.simps [simp del]


section \<open>SHA-1, as \<open>hashlib.sha1(data).hexdigest()\<close> computes it\<close>

type_synonym byte = nat

definition utf8_encode :: "string \<Rightarrow> byte list" where
  "utf8_encode s = concat (map (\<lambda>c. let n = (of_char c :: nat) in
     if n < 128 then [n] else [192 + n div 64, 128 + n mod 64]) s)"

fun be_bytes :: "nat \<Rightarrow> nat \<Rightarrow> byte list" where
  "be_bytes 0 v = []"
| "be_bytes (Suc n) v = be_bytes n (v div 256) @ [v mod 256]"

definition sha1_pad :: "byte list \<Rightarrow> byte list" where
  "sha1_pad m = (let l = length m; k = (119 - l mod 64) mod 64 in
     m @ [128] @ replicate k 0 @ be_bytes 8 (8 * l))"

fun be_words :: "byte list \<Rightarrow> 32 word list" where
  "be_words (a # b # c # d # rest) =
     word_of_nat (((a * 256 + b) * 256 + c) * 256 + d) # be_words rest"
| "be_words _ = []"

fun chunks16 :: "nat \<Rightarrow> 32 word list \<Rightarrow> 32 word list list" where
  "chunks16 0 ws = []"
| "chunks16 (Suc n) ws = take 16 ws # chunks16 n (drop 16 ws)"

text \<open>The message schedule, newest word first.\<close>

fun sha1_schedule :: "nat \<Rightarrow> 32 word list \<Rightarrow> 32 word list" where
  "sha1_schedule 0 ws = ws"
| "sha1_schedule (Suc n) ws =
     sha1_schedule n (word_rotl 1 (xor (xor (ws ! 2) (ws ! 7)) (xor (ws ! 13) (ws ! 15))) # ws)"

type_synonym sha1_state = "32 word \<times> 32 word \<times> 32 word \<times> 32 word \<times> 32 word"

definition sha1_f :: "nat \<Rightarrow> 32 word \<Rightarrow> 32 word \<Rightarrow> 32 word \<Rightarrow> 32 word" where
  "sha1_f t b c d =
     (if t < 20 then or (and b c) (and (not b) d)
      else if t < 40 then xor (xor b c) d
      else if t < 60 then or (or (and b c) (and b d)) (and c d)
      else xor (xor b c) d)"

definition sha1_k :: "nat \<Rightarrow> 32 word" where
  "sha1_k t = (if t < 20 then 0x5A827999 else if t < 40 then 0x6ED9EBA1
     else if t < 60 then 0x8F1BBCDC else 0xCA62C1D6)"

fun sha1_rounds :: "nat \<Rightarrow> 32 word list \<Rightarrow> sha1_state \<Rightarrow> sha1_state" where
  "sha1_rounds t [] st = st"
| "sha1_rounds t (w # ws) (a, b, c, d, e) =
     sha1_rounds (Suc t) ws
       (word_rotl 5 a + sha1_f t b c d + e + sha1_k t + w, a, word_rotl 30 b, c, d)"

definition sha1_block :: "sha1_state \<Rightarrow> 32 word list \<Rightarrow> sha1_state" where
  "sha1_block h blk =
     (case h of (h0, h1, h2, h3, h4) \<Rightarrow>
        (case sha1_rounds 0 (rev (sha1_schedule 64 (rev blk))) h of
           (a, b, c, d, e) \<Rightarrow> (h0 + a, h1 + b, h2 + c, h3 + d, h4 + e)))"

definition hex_digit :: "nat \<Rightarrow> char" where
  "hex_digit d = (if d < 10 then char_of (48 + d) else char_of (87 + d))"

fun hex_nat :: "nat \<Rightarrow> nat \<Rightarrow> string" where
  "hex_nat 0 v = []"
| "hex_nat (Suc n) v = hex_nat n (v div 16) @ [hex_digit (v mod 16)]"

definition hex_word :: "32 word \<Rightarrow> string" where
  "hex_word w = hex_nat 8 (unat w)"

definition sha1_hexdigest :: "byte list \<Rightarrow> string" where
  "sha1_hexdigest m =
     (let ws = be_words (sha1_pad m);
          h = foldl sha1_block (0x67452301, 0xEFCDAB89, 0x98BADCFE, 0x10325476, 0xC3D2E1F0)
                (chunks16 (length ws div 16) ws)
      in case h of (h0, h1, h2, h3, h4) \<Rightarrow>
           hex_word h0 @ hex_word h1 @ hex_word h2 @ hex_word h3 @ hex_word h4)"

section \<open>Decoded JSON values\<close>

text \<open>
  What \<open>json.load\<close> returns. A dict keeps its keys in insertion order, so it is an
  association list; lookups take the first entry of a key. A finite float is the rational
  number it denotes.
\<close>

datatype pyfloat = Finite rat | NaN | Infinite bool

datatype json =
    JNull
  | JBool bool
  | JInt int
  | JFloat pyfloat
  | JStr string
  | JList "json list"
  | JDict "(string \<times> json) list"

datatype error = AttributeError | TypeError | ValueError | IndexError

text \<open>Truth value of a decoded value, as \<open>if title\<close> and \<open>if not msg\<close> test it.\<close>

fun truthy :: "json \<Rightarrow> bool" where
  "truthy JNull = False"
| "truthy (JBool b) = b"
| "truthy (JInt i) = (i \<noteq> 0)"
| "truthy (JFloat f) = (f \<noteq> Finite 0)"
| "truthy (JStr s) = (s \<noteq> [])"
| "truthy (JList xs) = (xs \<noteq> [])"
| "truthy (JDict kvs) = (kvs \<noteq> [])"

section \<open>Slug of a thread\<close>

text \<open>
  \<^verbatim>\<open>def make_slug_or_hash(title, ts, idx):
    return slugify(title)[:50] if title else hashlib.sha1(f"{ts}_{idx}".encode()).hexdigest()[:10]\<close>
  A title that is true but not a string has no \<open>strip\<close>: AttributeError.
\<close>

definition hash_slug :: "string \<Rightarrow> nat \<Rightarrow> string" where
  "hash_slug ts idx = take 10 (sha1_hexdigest (utf8_encode (ts @ ''_'' @ show_nat idx)))"

definition make_slug_or_hash :: "json \<Rightarrow> string \<Rightarrow> nat \<Rightarrow> error + string" where
  "make_slug_or_hash title ts idx =
     (if truthy title
      then (case title of JStr t \<Rightarrow> Inr (take 50 (slugify t)) | _ \<Rightarrow> Inl AttributeError)
      else Inr (hash_slug ts idx))"

text \<open>Inverses of \<open>show_nat\<close> and \<open>utf8_encode\<close>, used to show that both are injective.\<close>

definition read_nat :: "string \<Rightarrow> nat" where
  "read_nat s = foldl (\<lambda>a c. 10 * a + (of_char c - 48)) 0 s"

fun utf8_decode :: "byte list \<Rightarrow> string" where
  "utf8_decode [] = []"
| "utf8_decode [b] = [char_of b]"
| "utf8_decode (b # c # rest) =
     (if b < 128 then char_of b # utf8_decode (c # rest)
      else char_of ((b - 192) * 64 + (c - 128)) # utf8_decode rest)"

section \<open>Output lines, files and configuration\<close>















section \<open>The manual-edit check\<close>






section \<open>Media reference resolver\<close>













section \<open>Conversation writer\<close>












definition part_name :: "string \<Rightarrow> nat \<Rightarrow> nat \<Rightarrow> string" where
  "part_name slug i n = slug @ ''_part_'' @ show_nat i @ ''_of_'' @ show_nat n @ ''.md''"








section \<open>Routing of a thread\<close>


section \<open>Properties of the text normalizer\<close>

lemma lower_char_idem: "lower_char (lower_char c) = lower_char c"
  by (auto simp: lower_char_def Let_def)

lemma isalnum_not_isspace: "isalnum c \<Longrightarrow> \<not> isspace c"
  by (auto simp: isalnum_def isspace_def Let_def)

lemma slug_char_class: "isalnum (slug_char c) \<or> slug_char c = CHR ''-'' \<or> slug_char c = CHR ''_''"
  by (auto simp: slug_char_def)

lemma slug_char_not_space: "\<not> isspace (slug_char c)"
  using slug_char_class [of c] isalnum_not_isspace [of "slug_char c"]
  by (auto simp: isspace_def)

lemma slug_char_idem: "slug_char (slug_char c) = slug_char c"
  by (auto simp: slug_char_def)

lemma slug_lower_fixed: "lower_char (slug_char (lower_char c)) = slug_char (lower_char c)"
  by (auto simp: slug_char_def lower_char_idem) (simp add: lower_char_def)

lemma strip_no_space: "\<forall>c \<in> set s. \<not> isspace c \<Longrightarrow> strip s = s"
proof -
  assume h: "\<forall>c \<in> set s. \<not> isspace c"
  have "dropWhile isspace s = s"
    using h by (cases s) auto
  moreover have "dropWhile isspace (rev s) = rev s"
    using h by (cases s rule: rev_cases) auto
  ultimately show "strip s = s"
    by (simp add: strip_def)
qed

lemma strip_slugify: "strip (slugify t) = slugify t"
  by (rule strip_no_space) (auto simp: slugify_def slug_char_not_space)

lemma lower_slugify: "lower (slugify t) = slugify t"
  by (simp add: slugify_def lower_def slug_lower_fixed)

text \<open>
  C8: normalizing twice is the same as normalizing once, and every character of a
  normalized string is alphanumeric, a hyphen or an underscore.
\<close>

theorem slugify_idempotent_and_class:
  "slugify (slugify t) = slugify t \<and>
   list_all (\<lambda>c. isalnum c \<or> c = CHR ''-'' \<or> c = CHR ''_'') (slugify t)"
proof
  have "slugify (slugify t) = map slug_char (lower (strip (slugify t)))"
    by (simp add: slugify_def)
  also have "\<dots> = map slug_char (slugify t)"
    by (simp add: strip_slugify lower_slugify)
  also have "\<dots> = slugify t"
    by (simp add: slugify_def slug_char_idem)
  finally show "slugify (slugify t) = slugify t" .
  show "list_all (\<lambda>c. isalnum c \<or> c = CHR ''-'' \<or> c = CHR ''_'') (slugify t)"
    using slug_char_class by (simp add: slugify_def list_all_iff)
qed

section \<open>Properties of the thread slug\<close>

lemma read_show_nat: "read_nat (show_nat n) = n"
proof (induction n rule: show_nat.induct)
  case (1 n)
  show ?case
  proof (cases "n < 10")
    case True
    then show ?thesis
      by (subst show_nat.simps) (simp add: read_nat_def digit_char_def)
  next
    case False
    with 1 have "read_nat (show_nat (n div 10)) = n div 10" by simp
    with False show ?thesis
      by (subst show_nat.simps) (simp add: read_nat_def digit_char_def)
  qed
qed

lemma show_nat_inj: "show_nat m = show_nat n \<Longrightarrow> m = n"
  by (metis read_show_nat)

lemma utf8_decode_encode: "utf8_decode (utf8_encode s) = s"
proof (induction s)
  case Nil
  show ?case by (simp add: utf8_encode_def)
next
  case (Cons c s)
  have step: "utf8_encode (c # s) =
      (if (of_char c :: nat) < 128 then [of_char c]
       else [192 + of_char c div 64, 128 + of_char c mod 64]) @ utf8_encode s"
    by (simp add: utf8_encode_def Let_def)
  show ?case
  proof (cases "(of_char c :: nat) < 128")
    case True
    then show ?thesis using Cons step
      by (cases "utf8_encode s") simp_all
  next
    case False
    have "(of_char c :: nat) div 64 * 64 + of_char c mod 64 = of_char c" by simp
    then show ?thesis using False Cons step by simp
  qed
qed

lemma utf8_encode_inj: "utf8_encode s = utf8_encode t \<Longrightarrow> s = t"
  by (metis utf8_decode_encode)

lemma length_hex_nat: "length (hex_nat n v) = n"
  by (induction n arbitrary: v) auto

lemma length_hex_word: "length (hex_word w) = 8"
  by (simp add: hex_word_def length_hex_nat)

lemma length_sha1_hexdigest: "length (sha1_hexdigest m) = 40"
proof -
  obtain h0 h1 h2 h3 h4 where
    h: "foldl sha1_block (0x67452301, 0xEFCDAB89, 0x98BADCFE, 0x10325476, 0xC3D2E1F0)
          (chunks16 (length (be_words (sha1_pad m)) div 16) (be_words (sha1_pad m)))
        = (h0, h1, h2, h3, h4)"
    by (metis prod_cases5)
  show ?thesis
    unfolding sha1_hexdigest_def Let_def h by (simp add: length_hex_word)
qed

lemma slugify_blank: "slugify '' '' = ''''"
  by (simp add: slugify_def strip_def isspace_def lower_def)

text \<open>
  A thread whose title is the empty string (or null) gets as slug the first ten
  hexadecimal digits of the SHA-1 of the text \<open><timestamp>_<index>\<close>, a function of
  that pair alone; and for one timestamp, two distinct indices give two distinct hashed
  byte strings.
\<close>

theorem untitled_slug_is_hash:
  "make_slug_or_hash (JStr '''') ts idx = Inr (hash_slug ts idx) \<and>
   make_slug_or_hash JNull ts idx = Inr (hash_slug ts idx) \<and>
   hash_slug ts idx = take 10 (sha1_hexdigest (utf8_encode (ts @ ''_'' @ show_nat idx))) \<and>
   length (hash_slug ts idx) = 10 \<and>
   (idx \<noteq> idx' \<longrightarrow>
      utf8_encode (ts @ ''_'' @ show_nat idx) \<noteq> utf8_encode (ts @ ''_'' @ show_nat idx'))"
proof -
  have "utf8_encode (ts @ ''_'' @ show_nat idx) \<noteq> utf8_encode (ts @ ''_'' @ show_nat idx')"
    if "idx \<noteq> idx'"
  proof
    assume "utf8_encode (ts @ ''_'' @ show_nat idx) = utf8_encode (ts @ ''_'' @ show_nat idx')"
    then have "ts @ ''_'' @ show_nat idx = ts @ ''_'' @ show_nat idx'"
      by (rule utf8_encode_inj)
    then have "show_nat idx = show_nat idx'" by simp
    with that show False by (auto dest: show_nat_inj)
  qed
  then show ?thesis
    by (simp add: make_slug_or_hash_def hash_slug_def length_sha1_hexdigest)
qed

theorem untitled_slug_is_hash_witness:
  "(0::nat) \<noteq> 1 \<and>
   make_slug_or_hash (JStr '''') ''unknown'' 0 = Inr (hash_slug ''unknown'' 0) \<and>
   length (hash_slug ''unknown'' 0) = 10 \<and>
   utf8_encode (''unknown'' @ ''_'' @ show_nat 0) \<noteq> utf8_encode (''unknown'' @ ''_'' @ show_nat 1)"
proof -
  have ne: "(0::nat) \<noteq> 1" by simp
  from ne untitled_slug_is_hash [of "''unknown''" 0 1] show ?thesis by blast
qed

text \<open>
  C1: a thread whose title is whitespace only should get a hash of timestamp and index
  as its slug, different for different indices. The code tests \<open>if title\<close> on the raw
  title: a title of one space is true, so it is slugified, and the slug is the empty
  string for every index; no hash is taken, and two such threads share one slug.
\<close>

theorem blank_title_slug_counterexample:
  "make_slug_or_hash (JStr '' '') ''unknown'' 0 = Inr '''' \<and>
   make_slug_or_hash (JStr '' '') ''unknown'' 1 = Inr ''''"
  by (simp add: make_slug_or_hash_def slugify_blank)

section \<open>Properties of chunked output\<close>








lemma part_name_inj: "part_name slug i n = part_name slug j n \<Longrightarrow> i = j"
  by (auto simp: part_name_def dest: show_nat_inj)







section \<open>Properties of the routing\<close>





end
